theory Spec2Isabelle
  imports Main "HOL-Library.AList" "HOL-Library.Word"
begin

section \<open>Yandex Disk CSV: Append Row\<close>

text \<open>
  A shallow embedding of \<^verbatim>\<open>src/nodes/YandexDiskCsvAppend.node.ts\<close>.

  Strings are lists of characters (code units below 256). A JSON object is an association
  list of its own properties in the order \<^verbatim>\<open>Object.keys\<close> enumerates them, and its
  prototype is \<^verbatim>\<open>Object.prototype\<close>. Numbers are the integers from \<^verbatim>\<open>-2^53\<close> to
  \<^verbatim>\<open>2^53 - 1\<close>, kept as signed words of 54 bits: a double holds each of them exactly and
  \<^verbatim>\<open>String\<close> renders it in plain decimal. Other numbers are outside the model.
\<close>

subsection \<open>Characters and strings\<close>

definition LF :: char where
  "LF = CHR 0x0A"

definition CR :: char where
  "CR = CHR 0x0D"

definition QUOTE :: char where
  "QUOTE = CHR 0x22"

text \<open>\<^verbatim>\<open>s.endsWith('\n')\<close>\<close>

definition endsWithLF :: "string \<Rightarrow> bool" where
  "endsWithLF s = (case rev s of [] \<Rightarrow> False | c # _ \<Rightarrow> c = LF)"

text \<open>\<^verbatim>\<open>function ensureTrailingNewline(s) { return s.endsWith('\n') ? s : s + '\n'; }\<close>\<close>

definition ensureTrailingNewline :: "string \<Rightarrow> string" where
  "ensureTrailingNewline s = (if endsWithLF s then s else s @ [LF])"

text \<open>
  The white space that \<^verbatim>\<open>String.prototype.trim\<close> removes, among the code units below 256:
  TAB, LF, VT, FF, CR, SPACE and NBSP.
\<close>

definition isWhiteSpace :: "char \<Rightarrow> bool" where
  "isWhiteSpace c = (c = CHR 0x09 \<or> c = CHR 0x0A \<or> c = CHR 0x0B \<or> c = CHR 0x0C
     \<or> c = CHR 0x0D \<or> c = CHR 0x20 \<or> c = CHR 0xA0)"

definition trim :: "string \<Rightarrow> string" where
  "trim s = rev (dropWhile isWhiteSpace (rev (dropWhile isWhiteSpace s)))"

text \<open>\<^verbatim>\<open>s.split(',')\<close>: the pieces between the separators; the empty string gives one empty piece.\<close>

fun split :: "char \<Rightarrow> string \<Rightarrow> string list" where
  "split sep [] = [[]]"
| "split sep (c # cs) =
     (if c = sep then [] # split sep cs
      else (case split sep cs of [] \<Rightarrow> [[c]] | p # ps \<Rightarrow> (c # p) # ps))"

text \<open>
  \<^verbatim>\<open>s.split(/\r?\n/)[0]\<close>: the text before the leftmost match of the pattern, which starts
  at an LF or at a CR that an LF follows; the whole string when there is no LF.
\<close>

fun firstLine :: "string \<Rightarrow> string" where
  "firstLine [] = []"
| "firstLine (c # cs) =
     (if c = LF then []
      else if c = CR \<and> (case cs of [] \<Rightarrow> False | d # _ \<Rightarrow> d = LF) then []
      else c # firstLine cs)"

subsection \<open>Records and their values\<close>

datatype jsvalue =
    VNull
  | VUndefined
  | VBool bool
  | VNum "54 word"
  | VStr string
  | VObj "(string \<times> jsvalue) list"
  | VFun string

type_synonym IDataObject = "(string \<times> jsvalue) list"

definition Object_keys :: "IDataObject \<Rightarrow> string list" where
  "Object_keys obj = map fst obj"

text \<open>The own property of that name, if the object has one.\<close>

definition ownProp :: "IDataObject \<Rightarrow> string \<Rightarrow> jsvalue option" where
  "ownProp obj key = map_of obj key"

text \<open>
  The members of \<^verbatim>\<open>Object.prototype\<close>: \<^verbatim>\<open>constructor\<close> is the function \<^verbatim>\<open>Object\<close>, the
  methods are functions of their own name, and \<^verbatim>\<open>__proto__\<close> reads the prototype of the
  object, which is \<^verbatim>\<open>Object.prototype\<close> itself, an object with no enumerable property.
\<close>

definition prototypeMethods :: "string list" where
  "prototypeMethods =
     [''toString'', ''toLocaleString'', ''valueOf'', ''hasOwnProperty'', ''isPrototypeOf'',
      ''propertyIsEnumerable'', ''__defineGetter__'', ''__defineSetter__'',
      ''__lookupGetter__'', ''__lookupSetter__'']"

definition prototypeMember :: "string \<Rightarrow> jsvalue option" where
  "prototypeMember key =
     (if key = ''constructor'' then Some (VFun ''Object'')
      else if key \<in> set prototypeMethods then Some (VFun key)
      else if key = ''__proto__'' then Some (VObj [])
      else None)"

text \<open>
  \<^verbatim>\<open>obj[key]\<close>: the own property, else the member inherited from the prototype;
  \<open>None\<close> is the \<^verbatim>\<open>undefined\<close> of a name that is neither.
\<close>

definition getProp :: "IDataObject \<Rightarrow> string \<Rightarrow> jsvalue option" where
  "getProp obj key = (case ownProp obj key of Some v \<Rightarrow> Some v | None \<Rightarrow> prototypeMember key)"

fun digitsOf :: "nat \<Rightarrow> string" where
  "digitsOf n =
     (if n < 10 then [char_of (48 + n)]
      else digitsOf (n div 10) @ [char_of (48 + n mod 10)])"

text \<open>
  \<^verbatim>\<open>String(v)\<close>; a built-in function is rendered as
  \<^verbatim>\<open>function name() { [native code] }\<close>.
\<close>

fun String_of :: "jsvalue \<Rightarrow> string" where
  "String_of VNull = ''null''"
| "String_of VUndefined = ''undefined''"
| "String_of (VBool b) = (if b then ''true'' else ''false'')"
| "String_of (VNum n) =
     (if sint n < 0 then CHR ''-'' # digitsOf (nat (- sint n)) else digitsOf (nat (sint n)))"
| "String_of (VStr s) = s"
| "String_of (VObj fields) = ''[object Object]''"
| "String_of (VFun name) = ''function '' @ name @ ''() { [native code] }''"

text \<open>\<^verbatim>\<open>(obj[key] as any) ?? ''\<close>\<close>

definition orEmpty :: "jsvalue option \<Rightarrow> jsvalue" where
  "orEmpty v =
     (case v of None \<Rightarrow> VStr [] | Some VNull \<Rightarrow> VStr [] | Some VUndefined \<Rightarrow> VStr []
      | Some x \<Rightarrow> x)"

text \<open>\<^verbatim>\<open>v === null || v === undefined ? '' : String(v)\<close>\<close>

definition cellText :: "jsvalue \<Rightarrow> string" where
  "cellText v = (case v of VNull \<Rightarrow> [] | VUndefined \<Rightarrow> [] | _ \<Rightarrow> String_of v)"

text \<open>
  One pass of the loop body for a fixed column list:
  \<^verbatim>\<open>cols.map((key) => obj[key] ?? '').map((v) => v === null || v === undefined ? '' : String(v))\<close>
\<close>

definition rowOf :: "string list \<Rightarrow> IDataObject \<Rightarrow> string list" where
  "rowOf cols obj = map cellText (map (\<lambda>key. orEmpty (getProp obj key)) cols)"

subsection \<open>Merging\<close>

text \<open>
  Step 5 of \<^verbatim>\<open>execute\<close>; an empty string is falsy:
  \<^verbatim>\<open>
  let finalCsv = currentCsv;
  if (finalCsv && appendCsv) finalCsv = ensureTrailingNewline(finalCsv) + appendCsv;
  else if (!finalCsv) finalCsv = appendCsv;
  \<close>
\<close>

definition mergeCsv :: "string \<Rightarrow> string \<Rightarrow> string" where
  "mergeCsv currentCsv appendCsv =
     (if currentCsv \<noteq> [] \<and> appendCsv \<noteq> [] then ensureTrailingNewline currentCsv @ appendCsv
      else if currentCsv = [] then appendCsv
      else currentCsv)"

subsection \<open>The CSV library\<close>

text \<open>
  \<^verbatim>\<open>parse\<close> (csv-parse/sync) and \<^verbatim>\<open>stringify\<close> (csv-stringify/sync) are imported packages.
  The node is a function of them: \<open>parse lib delimiter input\<close> stands for
  \<^verbatim>\<open>parse(input, { delimiter, relax_column_count: true })\<close>, which returns the records or
  throws, and \<open>stringify lib delimiter rows\<close> for
  \<^verbatim>\<open>stringify(rows, { delimiter, record_delimiter: '\n' })\<close>.
  The delimiter is one character, as each option of the node's Delimiter parameter is.
\<close>

datatype parse_error = InvalidOpeningQuote | InvalidClosingQuote | QuoteNotClosed

record csv_library =
  parse :: "char \<Rightarrow> string \<Rightarrow> parse_error + string list list"
  stringify :: "char \<Rightarrow> string list list \<Rightarrow> string"

text \<open>
  A reference model of the two packages under their default dialect, for the concrete
  examples. Serialising: a field that contains the quote character, the delimiter or the
  record delimiter is enclosed in quotes with its quotes doubled, any other field is written
  as it is; the fields of a record are joined by the delimiter, and every record is followed
  by the record delimiter.
\<close>

definition quoteField :: "char \<Rightarrow> string \<Rightarrow> string" where
  "quoteField d v =
     (let containsQuote = (QUOTE \<in> set v);
          shouldQuote = (containsQuote \<or> d \<in> set v \<or> LF \<in> set v);
          escaped = (if containsQuote
                     then concat (map (\<lambda>c. if c = QUOTE then [QUOTE, QUOTE] else [c]) v)
                     else v)
      in if shouldQuote then QUOTE # escaped @ [QUOTE] else escaped)"

fun joinWith :: "char \<Rightarrow> string list \<Rightarrow> string" where
  "joinWith d [] = []"
| "joinWith d [f] = f"
| "joinWith d (f # g # fs) = f @ d # joinWith d (g # fs)"

definition csv_stringify :: "char \<Rightarrow> string list list \<Rightarrow> string" where
  "csv_stringify d rows = concat (map (\<lambda>r. joinWith d (map (quoteField d) r) @ [LF]) rows)"

text \<open>
  Parsing one line, character by character. The state is: inside a quoted field, just after
  a closing quote, just after an escaping quote, the field read so far, the fields of the
  current record, and the finished records. Outside quotes a CR or LF ends the record (the
  node passes a line without LF). A quote inside an unquoted field, a closing quote that is
  not followed by the end, a delimiter or a record delimiter, and a quote left open are
  errors.
\<close>

definition closesQuote :: "char \<Rightarrow> string \<Rightarrow> bool" where
  "closesQuote d rest =
     (case rest of [] \<Rightarrow> True | n # _ \<Rightarrow> n = d \<or> n = CR \<or> n = LF)"

fun parseLoop :: "char \<Rightarrow> bool \<Rightarrow> bool \<Rightarrow> bool \<Rightarrow> string \<Rightarrow> string list
    \<Rightarrow> string list list \<Rightarrow> string \<Rightarrow> parse_error + string list list" where
  "parseLoop d quoting wasQuoting escaping field rec recs [] =
     (if quoting then Inl QuoteNotClosed
      else if wasQuoting \<or> rec \<noteq> [] \<or> field \<noteq> [] then Inr (recs @ [rec @ [field]])
      else Inr recs)"
| "parseLoop d quoting wasQuoting escaping field rec recs (c # cs) =
     (if escaping then parseLoop d quoting wasQuoting False (field @ [c]) rec recs cs
      else if quoting \<and> c = QUOTE \<and> (case cs of [] \<Rightarrow> False | n # _ \<Rightarrow> n = QUOTE)
        then parseLoop d quoting wasQuoting True field rec recs cs
      else if c = QUOTE then
        (if quoting then
           (if closesQuote d cs then parseLoop d False True False field rec recs cs
            else Inl InvalidClosingQuote)
         else if field \<noteq> [] then Inl InvalidOpeningQuote
         else parseLoop d True wasQuoting False field rec recs cs)
      else if \<not> quoting \<and> (c = CR \<or> c = LF)
        then parseLoop d False False False [] [] (recs @ [rec @ [field]]) cs
      else if \<not> quoting \<and> c = d
        then parseLoop d False False False [] (rec @ [field]) recs cs
      else parseLoop d quoting wasQuoting False (field @ [c]) rec recs cs)"

definition csv_parse :: "char \<Rightarrow> string \<Rightarrow> parse_error + string list list" where
  "csv_parse d input = parseLoop d False False False [] [] [] input"

definition node_csv :: csv_library where
  "node_csv = \<lparr>parse = csv_parse, stringify = csv_stringify\<rparr>"

text \<open>A parser that throws on every input.\<close>

definition rejecting :: csv_library where
  "rejecting = \<lparr>parse = (\<lambda>d input. Inl QuoteNotClosed), stringify = csv_stringify\<rparr>"

subsection \<open>The host\<close>

text \<open>
  \<^verbatim>\<open>this.helpers.httpRequest\<close> either throws an error, of which the node reads
  \<^verbatim>\<open>err?.response?.statusCode\<close>, or returns a response, of which the node reads the
  \<^verbatim>\<open>href\<close> of the JSON body or the text. The requests issued are collected in order.
\<close>

datatype http_error = HttpError (statusCode: "nat option")

record http_request =
  url :: "string option"
  httpMethod :: string
  qs :: "(string \<times> string) list"
  headers :: "(string \<times> string) list"
  body :: "string option"

record http_response =
  href :: "string option"
  bodyText :: string

type_synonym httpRequest = "http_request \<Rightarrow> http_error + http_response"

datatype exec_error = HttpFailure http_error | ParseFailure parse_error

datatype mapping_mode = ByHeader | ByColumns

record parameters =
  filePath :: string
  delimiter :: char
  encoding :: string
  hasHeader :: bool
  mappingMode :: mapping_mode
  columns :: string
  createIfMissing :: bool
  writeHeaderOnCreate :: bool

subsection \<open>The requests\<close>

text \<open>
  \<^verbatim>\<open>columnsCsv.split(',').map((s) => s.trim()).filter((s) => s.length > 0)\<close>
\<close>

definition explicitColumns :: "string \<Rightarrow> string list" where
  "explicitColumns columnsCsv =
     filter (\<lambda>s. length s > 0) (map trim (split (CHR '','') columnsCsv))"

text \<open>\<^verbatim>\<open>(this.getNodeParameter('encoding', 0) as string) || 'utf-8'\<close>\<close>

definition encodingLabel :: "parameters \<Rightarrow> string" where
  "encodingLabel p = (if encoding p = [] then ''utf-8'' else encoding p)"

definition base :: string where
  "base = ''https://cloud-api.yandex.net/v1/disk''"

definition userAgent :: "string \<times> string" where
  "userAgent = (''User-Agent'', ''n8n-yadisk-csv/0.1.0'')"

definition headersAuth :: "string \<Rightarrow> (string \<times> string) list" where
  "headersAuth token = [(''Authorization'', ''OAuth '' @ token), userAgent]"

definition downloadLinkRequest :: "parameters \<Rightarrow> string \<Rightarrow> http_request" where
  "downloadLinkRequest p token =
     \<lparr>url = Some (base @ ''/resources/download''), httpMethod = ''GET'',
      qs = [(''path'', filePath p)], headers = headersAuth token, body = None\<rparr>"

definition fileRequest :: "string \<Rightarrow> http_request" where
  "fileRequest downloadUrl =
     \<lparr>url = Some downloadUrl, httpMethod = ''GET'', qs = [], headers = [], body = None\<rparr>"

definition uploadLinkRequest :: "parameters \<Rightarrow> string \<Rightarrow> http_request" where
  "uploadLinkRequest p token =
     \<lparr>url = Some (base @ ''/resources/upload''), httpMethod = ''GET'',
      qs = [(''path'', filePath p), (''overwrite'', ''true'')], headers = headersAuth token,
      body = None\<rparr>"

definition putRequest :: "string option \<Rightarrow> string \<Rightarrow> string \<Rightarrow> http_request" where
  "putRequest uploadUrl finalCsv enc =
     \<lparr>url = uploadUrl, httpMethod = ''PUT'', qs = [],
      headers = [(''Content-Type'', ''text/csv; charset='' @ enc), userAgent],
      body = Some finalCsv\<rparr>"

subsection \<open>The steps of execute\<close>

text \<open>
  Step 1, with its handler: \<open>Inr None\<close> is the \<^verbatim>\<open>null\<close> that the handler returns.
  \<^verbatim>\<open>
  .catch(async (err) => {
    if (err?.response?.statusCode === 404 && createIfMissing) return null;
    throw err;
  })
  \<close>
\<close>

definition dlLink :: "httpRequest \<Rightarrow> parameters \<Rightarrow> string \<Rightarrow> http_error + http_response option" where
  "dlLink http p token =
     (case http (downloadLinkRequest p token) of
        Inl err \<Rightarrow> (if statusCode err = Some 404 \<and> createIfMissing p then Inr None else Inl err)
      | Inr resp \<Rightarrow> Inr (Some resp))"

text \<open>\<^verbatim>\<open>dlLinkResp?.body?.href\<close> when it is truthy: a string that is not empty.\<close>

definition truthyHref :: "http_response option \<Rightarrow> string option" where
  "truthyHref dlLinkResp =
     (case dlLinkResp of
        None \<Rightarrow> None
      | Some resp \<Rightarrow> (case href resp of None \<Rightarrow> None | Some h \<Rightarrow> if h = [] then None else Some h))"

text \<open>
  \<^verbatim>\<open>
  if (hasHeader && currentCsv.trim().length > 0) {
    const parsed = parse(currentCsv.split(/\r?\n/)[0], { delimiter, relax_column_count: true });
    headerRow = parsed[0] ?? null;
  }
  \<close>
\<close>

definition discoverHeader :: "csv_library \<Rightarrow> bool \<Rightarrow> char \<Rightarrow> string
    \<Rightarrow> parse_error + string list option" where
  "discoverHeader lib hasHdr delim currentCsv =
     (if hasHdr \<and> length (trim currentCsv) > 0 then
        (case parse lib delim (firstLine currentCsv) of
           Inl e \<Rightarrow> Inl e
         | Inr parsed \<Rightarrow> Inr (case parsed of [] \<Rightarrow> None | r # _ \<Rightarrow> Some r))
      else Inr None)"

text \<open>
  The block guarded by \<^verbatim>\<open>if (dlLinkResp?.body?.href)\<close>: the request it issues, and the
  current content with the discovered header.
\<close>

definition readCurrent :: "csv_library \<Rightarrow> httpRequest \<Rightarrow> parameters \<Rightarrow> http_response option
    \<Rightarrow> http_request list \<times> (exec_error + string \<times> string list option)" where
  "readCurrent lib http p dlLinkResp =
     (case truthyHref dlLinkResp of
        None \<Rightarrow> ([], Inr ([], None))
      | Some downloadUrl \<Rightarrow>
          (case http (fileRequest downloadUrl) of
             Inl err \<Rightarrow> ([fileRequest downloadUrl], Inl (HttpFailure err))
           | Inr fileResp \<Rightarrow>
               (case discoverHeader lib (hasHeader p) (delimiter p) (bodyText fileResp) of
                  Inl e \<Rightarrow> ([fileRequest downloadUrl], Inl (ParseFailure e))
                | Inr headerRow \<Rightarrow> ([fileRequest downloadUrl], Inr (bodyText fileResp, headerRow)))))"

text \<open>
  Step 2, the loop over the items, with its two variables \<^verbatim>\<open>headerRow\<close> and \<^verbatim>\<open>rows\<close>.
  An array is truthy, also when empty: \<^verbatim>\<open>!headerRow\<close> holds for \<^verbatim>\<open>null\<close> only.
\<close>

fun mapItems :: "mapping_mode \<Rightarrow> string list \<Rightarrow> string list option \<Rightarrow> string list list
    \<Rightarrow> IDataObject list \<Rightarrow> string list option \<times> string list list" where
  "mapItems mode explicit headerRow rows [] = (headerRow, rows)"
| "mapItems mode explicit headerRow rows (obj # items) =
     (if mode = ByHeader then
        (let hdr = (case headerRow of None \<Rightarrow> Object_keys obj | Some h \<Rightarrow> h)
         in mapItems mode explicit (Some hdr) (rows @ [rowOf hdr obj]) items)
      else mapItems mode explicit headerRow (rows @ [rowOf explicit obj]) items)"

text \<open>Steps 3 and 4: the fragment to append, with the header row when the file is created.\<close>

definition composeAppend :: "csv_library \<Rightarrow> parameters \<Rightarrow> http_response option
    \<Rightarrow> string list option \<Rightarrow> string list list \<Rightarrow> string" where
  "composeAppend lib p dlLinkResp headerRow rows =
     (let appendCsv = stringify lib (delimiter p) rows
      in if dlLinkResp = None \<and> createIfMissing p then
           (if hasHeader p \<and> writeHeaderOnCreate p then
              (let header = (if mappingMode p = ByHeader
                             then (case headerRow of None \<Rightarrow> [] | Some h \<Rightarrow> h)
                             else explicitColumns (columns p))
               in stringify lib (delimiter p) [header] @ appendCsv)
            else appendCsv)
         else appendCsv)"

text \<open>\<^verbatim>\<open>{ ...it.json, _ydisk: { filePath } }\<close>\<close>

definition withYdisk :: "string \<Rightarrow> IDataObject \<Rightarrow> IDataObject" where
  "withYdisk path json = AList.update ''_ydisk'' (VObj [(''filePath'', VStr path)]) json"

definition prepareOutputData :: "IDataObject list \<Rightarrow> IDataObject list list" where
  "prepareOutputData out = [out]"

subsection \<open>execute\<close>

text \<open>
  The parameters and the token are read first; then the steps run in order, and the first
  error ends the invocation. The result is the list of requests issued, with the error or
  the output items.
\<close>

definition execute :: "csv_library \<Rightarrow> httpRequest \<Rightarrow> parameters \<Rightarrow> string \<Rightarrow> IDataObject list
    \<Rightarrow> http_request list \<times> (exec_error + IDataObject list list)" where
  "execute lib http p token items =
     (case dlLink http p token of
        Inl err \<Rightarrow> ([downloadLinkRequest p token], Inl (HttpFailure err))
      | Inr dlLinkResp \<Rightarrow>
          (case readCurrent lib http p dlLinkResp of
             (reqs, Inl e) \<Rightarrow> (downloadLinkRequest p token # reqs, Inl e)
           | (reqs, Inr (currentCsv, headerRow0)) \<Rightarrow>
               (let (headerRow, rows) =
                      mapItems (mappingMode p) (explicitColumns (columns p)) headerRow0 [] items;
                    appendCsv = composeAppend lib p dlLinkResp headerRow rows;
                    finalCsv = mergeCsv currentCsv appendCsv;
                    issued = downloadLinkRequest p token # reqs @ [uploadLinkRequest p token]
                in case http (uploadLinkRequest p token) of
                     Inl err \<Rightarrow> (issued, Inl (HttpFailure err))
                   | Inr upLinkResp \<Rightarrow>
                       (let put = putRequest (href upLinkResp) finalCsv (encodingLabel p)
                        in case http put of
                             Inl err \<Rightarrow> (issued @ [put], Inl (HttpFailure err))
                           | Inr done \<Rightarrow>
                               (issued @ [put],
                                Inr (prepareOutputData (map (withYdisk (filePath p)) items)))))))"

subsection \<open>Sample inputs\<close>

text \<open>The default values of the node's parameters.\<close>

definition defaults :: parameters where
  "defaults =
     \<lparr>filePath = ''disk:/path/to/file.csv'', delimiter = CHR '','', encoding = ''utf-8'',
      hasHeader = True, mappingMode = ByHeader, columns = [], createIfMissing = True,
      writeHeaderOnCreate = True\<rparr>"

definition sampleDownloadUrl :: string where
  "sampleDownloadUrl = ''https://downloader.example/file''"

definition sampleUploadUrl :: string where
  "sampleUploadUrl = ''https://uploader.example/file''"

text \<open>A host on which the file is absent: download resolution answers 404.\<close>

definition absentHost :: httpRequest where
  "absentHost req =
     (if httpMethod req = ''PUT'' then Inr \<lparr>href = None, bodyText = []\<rparr>
      else if url req = Some (base @ ''/resources/download'') then Inl (HttpError (Some 404))
      else Inr \<lparr>href = Some sampleUploadUrl, bodyText = []\<rparr>)"

text \<open>A host on which the file exists with the given content.\<close>

definition existingHost :: "string \<Rightarrow> httpRequest" where
  "existingHost content req =
     (if httpMethod req = ''PUT'' then Inr \<lparr>href = None, bodyText = []\<rparr>
      else if url req = Some (base @ ''/resources/download'')
        then Inr \<lparr>href = Some sampleDownloadUrl, bodyText = []\<rparr>
      else if url req = Some sampleDownloadUrl then Inr \<lparr>href = None, bodyText = content\<rparr>
      else Inr \<lparr>href = Some sampleUploadUrl, bodyText = []\<rparr>)"

section \<open>Properties\<close>

subsection \<open>Auxiliary facts\<close>

lemma endsWithLF_append: "endsWithLF (s @ [LF])"
  by (simp add: endsWithLF_def)


lemma mapItems_explicit:
  "mapItems ByColumns explicit headerRow rows items = (headerRow, rows @ map (rowOf explicit) items)"
  by (induction items arbitrary: rows) simp_all








lemma composeAppend_parse_irrelevant:
  "composeAppend (lib\<lparr>parse := q\<rparr>) p r h rows = composeAppend lib p r h rows"
  by (simp add: composeAppend_def Let_def)

lemma readCurrent_parse_irrelevant:
  assumes "\<not> (\<exists>u file. truthyHref r = Some u \<and> http (fileRequest u) = Inr file
                \<and> hasHeader p \<and> trim (bodyText file) \<noteq> [])"
  shows "readCurrent (lib\<lparr>parse := q\<rparr>) http p r = readCurrent lib http p r"
  using assms
  by (auto simp: readCurrent_def discoverHeader_def split: option.splits sum.splits)

lemma readCurrent_first_line:
  assumes "truthyHref r = Some u" and "http (fileRequest u) = Inr file"
    and "q (delimiter p) (firstLine (bodyText file)) = parse lib (delimiter p) (firstLine (bodyText file))"
  shows "readCurrent (lib\<lparr>parse := q\<rparr>) http p r = readCurrent lib http p r"
  using assms by (simp add: readCurrent_def discoverHeader_def)

lemma execute_cong_readCurrent:
  assumes "readCurrent (lib\<lparr>parse := q\<rparr>) http p r = readCurrent lib http p r"
    and "dlLink http p token = Inr r"
  shows "execute (lib\<lparr>parse := q\<rparr>) http p token items = execute lib http p token items"
  using assms by (simp add: execute_def composeAppend_parse_irrelevant)

lemma update_fresh: "k \<notin> fst ` set al \<Longrightarrow> AList.update k v al = al @ [(k, v)]"
  by (induction al) auto

lemma execute_output:
  assumes "execute lib http p token items = (reqs, Inr out)"
  shows "out = prepareOutputData (map (withYdisk (filePath p)) items)"
  using assms
  by (auto simp: execute_def Let_def split: sum.splits prod.splits)


subsection \<open>Creating the file\<close>



subsection \<open>Appending to an existing file\<close>



subsection \<open>The merge step\<close>

text \<open>
  C3. For existing content \<open>C\<close> and new content \<open>A\<close>, both non-empty, the merge step gives
  \<open>ensureTrailingNewline C @ A\<close>: it is \<open>C\<close>, a line feed and \<open>A\<close> when \<open>C\<close> does not end
  in a line feed, and \<open>C @ A\<close> with no second terminator when it does; ensuring the
  terminator twice is the same as ensuring it once. When the existing content is empty
  the merged result is \<open>A\<close>.
\<close>

theorem merge_ensures_one_terminator:
  assumes "C \<noteq> []" and "A \<noteq> []"
  shows "mergeCsv C A = ensureTrailingNewline C @ A
     \<and> (\<not> endsWithLF C \<longrightarrow> mergeCsv C A = C @ [LF] @ A)
     \<and> (endsWithLF C \<longrightarrow> mergeCsv C A = C @ A)
     \<and> ensureTrailingNewline (ensureTrailingNewline C) = ensureTrailingNewline C
     \<and> mergeCsv [] A = A"
  using assms by (simp add: mergeCsv_def ensureTrailingNewline_def endsWithLF_append)

theorem merge_ensures_one_terminator_witness:
  "mergeCsv ''a,b'' ''1,2\<newline>'' = ''a,b\<newline>1,2\<newline>''
   \<and> mergeCsv ''a,b\<newline>'' ''1,2\<newline>'' = ''a,b\<newline>1,2\<newline>''
   \<and> mergeCsv [] ''1,2\<newline>'' = ''1,2\<newline>''"
  using merge_ensures_one_terminator [of "''a,b''" "''1,2\<newline>''"] merge_ensures_one_terminator [of "''a,b\<newline>''" "''1,2\<newline>''"]
  by (simp add: endsWithLF_def ensureTrailingNewline_def LF_def)

subsection \<open>A missing file that may not be created\<close>

text \<open>
  C4. When download resolution fails with status 404 and \<^verbatim>\<open>createIfMissing\<close> is false,
  the invocation fails with that error, and the download resolution is the only request
  issued: neither the upload resolution nor the upload takes place.
\<close>

theorem not_found_aborts_before_upload:
  assumes "http (downloadLinkRequest p token) = Inl err"
    and "statusCode err = Some 404"
    and "\<not> createIfMissing p"
  shows "execute lib http p token items = ([downloadLinkRequest p token], Inl (HttpFailure err))"
  using assms by (simp add: execute_def dlLink_def)

theorem not_found_aborts_before_upload_witness:
  "execute node_csv absentHost (defaults\<lparr>createIfMissing := False\<rparr>) ''token'' [[(''a'', VNum 1)]]
     = ([downloadLinkRequest (defaults\<lparr>createIfMissing := False\<rparr>) ''token''], Inl (HttpFailure (HttpError (Some 404))))"
  using not_found_aborts_before_upload [of absentHost "defaults\<lparr>createIfMissing := False\<rparr>" "''token''" "HttpError (Some 404)" node_csv "[[(''a'', VNum 1)]]"]
  by (simp add: absentHost_def downloadLinkRequest_def defaults_def)

subsection \<open>Mapping the records\<close>


text \<open>
  C6. In mode \<^verbatim>\<open>byColumns\<close> the row of every record is built from the explicit column
  list, whatever header was discovered and whatever the key order of the record; the
  header variable is left as it was. The list \<^verbatim>\<open>b,a\<close> and the record \<^verbatim>\<open>{a:1,b:2}\<close> give
  the row \<^verbatim>\<open>2,1\<close>.
\<close>

theorem explicit_columns_fix_the_order:
  "mapItems ByColumns explicit headerRow rows items = (headerRow, rows @ map (rowOf explicit) items)
   \<and> explicitColumns ''b,a'' = [''b'', ''a'']
   \<and> rowOf (explicitColumns ''b,a'') [(''a'', VNum 1), (''b'', VNum 2)] = [''2'', ''1'']
   \<and> rowOf (explicitColumns ''b,a'') [(''b'', VNum 2), (''a'', VNum 1)] = [''2'', ''1'']
   \<and> stringify node_csv (CHR '','') [rowOf (explicitColumns ''b,a'') [(''a'', VNum 1), (''b'', VNum 2)]] = ''2,1\<newline>''"
proof (intro conjI)
  show "mapItems ByColumns explicit headerRow rows items = (headerRow, rows @ map (rowOf explicit) items)"
    by (rule mapItems_explicit)
  show "explicitColumns ''b,a'' = [''b'', ''a'']"
    by code_simp
  show "rowOf (explicitColumns ''b,a'') [(''a'', VNum 1), (''b'', VNum 2)] = [''2'', ''1'']"
    by code_simp
  show "rowOf (explicitColumns ''b,a'') [(''b'', VNum 2), (''a'', VNum 1)] = [''2'', ''1'']"
    by code_simp
  show "stringify node_csv (CHR '','') [rowOf (explicitColumns ''b,a'') [(''a'', VNum 1), (''b'', VNum 2)]] = ''2,1\<newline>''"
    by code_simp
qed




subsection \<open>Header discovery\<close>

text \<open>
  C8, as stated: header discovery is performed if and only if the file exists, its content
  is non-empty and \<^verbatim>\<open>hasHeader\<close> is true. It fails on a file whose content is one space:
  the file exists, the content is not empty and \<^verbatim>\<open>hasHeader\<close> is set, yet with a parser
  that throws on every line the invocation succeeds, the header is taken from the keys of
  the first record and the body uploaded is \<^verbatim>\<open>" \n1\n"\<close>. The guard of the source is
  \<^verbatim>\<open>currentCsv.trim().length > 0\<close>.
\<close>

theorem blank_content_skips_discovery:
  "bodyText \<lparr>href = None, bodyText = '' ''\<rparr> \<noteq> [] \<and> hasHeader defaults
   \<and> dlLink (existingHost '' '') defaults ''token''
       = Inr (Some \<lparr>href = Some sampleDownloadUrl, bodyText = []\<rparr>)
   \<and> existingHost '' '' (fileRequest sampleDownloadUrl) = Inr \<lparr>href = None, bodyText = '' ''\<rparr>
   \<and> parse rejecting (delimiter defaults) (firstLine '' '') = Inl QuoteNotClosed
   \<and> snd (execute rejecting (existingHost '' '') defaults ''token'' [[(''a'', VNum 1)]])
       = Inr [[[(''a'', VNum 1),
                (''_ydisk'', VObj [(''filePath'', VStr ''disk:/path/to/file.csv'')])]]]
   \<and> map body (fst (execute rejecting (existingHost '' '') defaults ''token'' [[(''a'', VNum 1)]]))
       = [None, None, None, Some '' \<newline>1\<newline>'']"
  by code_simp

text \<open>
  C8, amended: header discovery is performed if and only if download resolution returned a
  non-empty \<^verbatim>\<open>href\<close>, the content was fetched and has a character that is not white space,
  and \<^verbatim>\<open>hasHeader\<close> is true. Otherwise the parser has no part in the invocation. When it
  is performed, the parser is applied to the first line with the configured delimiter and
  to nothing else: the first record it returns is the header, and an error it throws ends
  the invocation after the two download requests, before any upload request.
\<close>

theorem header_discovery_condition:
  assumes "dlLink http p token = Inr r"
  shows "(\<not> (\<exists>u fileResp. truthyHref r = Some u \<and> http (fileRequest u) = Inr fileResp
                \<and> hasHeader p \<and> trim (bodyText fileResp) \<noteq> [])
          \<longrightarrow> execute (lib\<lparr>parse := q\<rparr>) http p token items = execute lib http p token items)
     \<and> (truthyHref r = Some u \<and> http (fileRequest u) = Inr fileResp
          \<and> hasHeader p \<and> trim (bodyText fileResp) \<noteq> []
          \<longrightarrow> (\<forall>e. parse lib (delimiter p) (firstLine (bodyText fileResp)) = Inl e
                 \<longrightarrow> execute lib http p token items
                     = ([downloadLinkRequest p token, fileRequest u], Inl (ParseFailure e)))
            \<and> (\<forall>parsed. parse lib (delimiter p) (firstLine (bodyText fileResp)) = Inr parsed
                 \<longrightarrow> readCurrent lib http p r
                     = ([fileRequest u],
                        Inr (bodyText fileResp, case parsed of [] \<Rightarrow> None | h # _ \<Rightarrow> Some h))))
     \<and> (truthyHref r = Some u \<and> http (fileRequest u) = Inr fileResp
          \<and> q (delimiter p) (firstLine (bodyText fileResp))
              = parse lib (delimiter p) (firstLine (bodyText fileResp))
          \<longrightarrow> execute (lib\<lparr>parse := q\<rparr>) http p token items = execute lib http p token items)"
proof (intro conjI impI allI)
  assume "\<not> (\<exists>u fileResp. truthyHref r = Some u \<and> http (fileRequest u) = Inr fileResp
                \<and> hasHeader p \<and> trim (bodyText fileResp) \<noteq> [])"
  then have "readCurrent (lib\<lparr>parse := q\<rparr>) http p r = readCurrent lib http p r"
    by (rule readCurrent_parse_irrelevant)
  then show "execute (lib\<lparr>parse := q\<rparr>) http p token items = execute lib http p token items"
    using assms by (rule execute_cong_readCurrent)
next
  fix e
  assume c: "truthyHref r = Some u \<and> http (fileRequest u) = Inr fileResp
          \<and> hasHeader p \<and> trim (bodyText fileResp) \<noteq> []"
    and e: "parse lib (delimiter p) (firstLine (bodyText fileResp)) = Inl e"
  then have "readCurrent lib http p r = ([fileRequest u], Inl (ParseFailure e))"
    by (simp add: readCurrent_def discoverHeader_def)
  then show "execute lib http p token items
      = ([downloadLinkRequest p token, fileRequest u], Inl (ParseFailure e))"
    using assms by (simp add: execute_def)
next
  fix parsed
  assume "truthyHref r = Some u \<and> http (fileRequest u) = Inr fileResp
          \<and> hasHeader p \<and> trim (bodyText fileResp) \<noteq> []"
    and "parse lib (delimiter p) (firstLine (bodyText fileResp)) = Inr parsed"
  then show "readCurrent lib http p r
      = ([fileRequest u], Inr (bodyText fileResp, case parsed of [] \<Rightarrow> None | h # _ \<Rightarrow> Some h))"
    by (simp add: readCurrent_def discoverHeader_def)
next
  assume "truthyHref r = Some u \<and> http (fileRequest u) = Inr fileResp
          \<and> q (delimiter p) (firstLine (bodyText fileResp))
              = parse lib (delimiter p) (firstLine (bodyText fileResp))"
  then have "readCurrent (lib\<lparr>parse := q\<rparr>) http p r = readCurrent lib http p r"
    by (simp add: readCurrent_first_line)
  then show "execute (lib\<lparr>parse := q\<rparr>) http p token items = execute lib http p token items"
    using assms by (rule execute_cong_readCurrent)
qed

theorem header_discovery_condition_witness:
  "execute node_csv (existingHost [CHR ''a'', QUOTE, CHR ''b'', LF, CHR ''x'']) defaults ''token'' []
     = ([downloadLinkRequest defaults ''token'', fileRequest sampleDownloadUrl],
        Inl (ParseFailure InvalidOpeningQuote))
   \<and> execute (node_csv\<lparr>parse := parse rejecting\<rparr>) (existingHost '' '') defaults ''token'' []
     = execute node_csv (existingHost '' '') defaults ''token'' []"
proof -
  let ?bad = "[CHR ''a'', QUOTE, CHR ''b'', LF, CHR ''x'']"
  let ?dl = "\<lparr>href = Some sampleDownloadUrl, bodyText = []\<rparr>"
  have dl1: "dlLink (existingHost ?bad) defaults ''token'' = Inr (Some ?dl)"
    by (simp add: dlLink_def existingHost_def downloadLinkRequest_def)
  have dl2: "dlLink (existingHost '' '') defaults ''token'' = Inr (Some ?dl)"
    by (simp add: dlLink_def existingHost_def downloadLinkRequest_def)
  have th: "truthyHref (Some ?dl) = Some sampleDownloadUrl"
    by (simp add: truthyHref_def sampleDownloadUrl_def)
  have f1: "existingHost ?bad (fileRequest sampleDownloadUrl) = Inr \<lparr>href = None, bodyText = ?bad\<rparr>"
    by (simp add: existingHost_def fileRequest_def sampleDownloadUrl_def base_def)
  have f2: "existingHost '' '' (fileRequest sampleDownloadUrl) = Inr \<lparr>href = None, bodyText = '' ''\<rparr>"
    by (simp add: existingHost_def fileRequest_def sampleDownloadUrl_def base_def)
  have t1: "trim ?bad \<noteq> []" by code_simp
  have t2: "trim '' '' = []" by code_simp
  have p1: "parse node_csv (delimiter defaults) (firstLine ?bad) = Inl InvalidOpeningQuote"
    by code_simp
  have h: "hasHeader defaults" by (simp add: defaults_def)
  have a: "execute node_csv (existingHost ?bad) defaults ''token'' []
     = ([downloadLinkRequest defaults ''token'', fileRequest sampleDownloadUrl],
        Inl (ParseFailure InvalidOpeningQuote))"
    using header_discovery_condition [OF dl1, where u = sampleDownloadUrl
        and fileResp = "\<lparr>href = None, bodyText = ?bad\<rparr>" and lib = node_csv and items = "[]"]
      th f1 t1 p1 h by simp
  have b: "execute (node_csv\<lparr>parse := parse rejecting\<rparr>) (existingHost '' '') defaults ''token'' []
     = execute node_csv (existingHost '' '') defaults ''token'' []"
    using header_discovery_condition [OF dl2, where q = "parse rejecting" and lib = node_csv and items = "[]"]
      th f2 t2 by auto
  show ?thesis using a b by simp
qed

subsection \<open>The output items\<close>

text \<open>
  C9, as stated: every output record holds all fields of the input record unchanged plus
  exactly one added field. It fails on a record that already has a field \<^verbatim>\<open>_ydisk\<close>, as
  the output of an earlier run of this node has: the field is overwritten and none is added.
\<close>

theorem existing_ydisk_field_is_overwritten:
  "snd (execute node_csv absentHost defaults ''token''
          [[(''a'', VNum 1), (''_ydisk'', VObj [(''filePath'', VStr ''disk:/old.csv'')])]])
     = Inr [[[(''a'', VNum 1), (''_ydisk'', VObj [(''filePath'', VStr ''disk:/path/to/file.csv'')])]]]
   \<and> getProp [(''a'', VNum 1), (''_ydisk'', VObj [(''filePath'', VStr ''disk:/old.csv'')])] ''_ydisk''
       \<noteq> getProp [(''a'', VNum 1), (''_ydisk'', VObj [(''filePath'', VStr ''disk:/path/to/file.csv'')])] ''_ydisk''
   \<and> length [(''a'', VNum 1), (''_ydisk'', VObj [(''filePath'', VStr ''disk:/path/to/file.csv'')])]
       = length [(''a'', VNum 1), (''_ydisk'', VObj [(''filePath'', VStr ''disk:/old.csv'')])]"
  by code_simp

text \<open>
  C9, amended: a successful invocation returns one list with one record per input record,
  in the same order. The output record agrees with the input record on every field other
  than \<^verbatim>\<open>_ydisk\<close>, and its field \<^verbatim>\<open>_ydisk\<close> is \<^verbatim>\<open>{ filePath }\<close> with the configured path.
  When the input record has no field \<^verbatim>\<open>_ydisk\<close>, the output record is the input record
  with that one field added at its end.
\<close>

theorem output_echoes_records_with_path:
  assumes "execute lib http p token items = (reqs, Inr out)"
  shows "\<exists>outs. out = [outs] \<and> length outs = length items
     \<and> (\<forall>i < length items.
          (\<forall>k. k \<noteq> ''_ydisk'' \<longrightarrow> getProp (outs ! i) k = getProp (items ! i) k)
        \<and> getProp (outs ! i) ''_ydisk'' = Some (VObj [(''filePath'', VStr (filePath p))])
        \<and> (''_ydisk'' \<notin> set (Object_keys (items ! i))
             \<longrightarrow> outs ! i = items ! i @ [(''_ydisk'', VObj [(''filePath'', VStr (filePath p))])]))"
proof -
  have "out = [map (withYdisk (filePath p)) items]"
    using execute_output [OF assms] by (simp add: prepareOutputData_def)
  then show ?thesis
    by (auto simp: getProp_def ownProp_def withYdisk_def Object_keys_def update_conv' update_fresh)
qed

theorem output_echoes_records_with_path_witness:
  "\<exists>outs. [[[(''a'', VNum 1), (''_ydisk'', VObj [(''filePath'', VStr ''disk:/path/to/file.csv'')])]]] = [outs]
     \<and> length outs = 1
     \<and> outs ! 0 = [(''a'', VNum 1)] @ [(''_ydisk'', VObj [(''filePath'', VStr ''disk:/path/to/file.csv'')])]"
proof -
  have e: "execute node_csv absentHost defaults ''token'' [[(''a'', VNum 1)]]
      = (fst (execute node_csv absentHost defaults ''token'' [[(''a'', VNum 1)]]),
         Inr [[[(''a'', VNum 1), (''_ydisk'', VObj [(''filePath'', VStr ''disk:/path/to/file.csv'')])]]])"
    by code_simp
  have p: "filePath defaults = ''disk:/path/to/file.csv''" by (simp add: defaults_def)
  show ?thesis
    using output_echoes_records_with_path [OF e] by (auto simp: p Object_keys_def)
qed

subsection \<open>No input records\<close>




end
